theory Spec2Isabelle
  imports Main "HOL-Library.Word"
begin

section \<open>MusicFileTools: album artwork and album-tag tools for .m4a files\<close>

text \<open>
  The two scripts of the repository, \<^verbatim>\<open>albumArt.py\<close> and \<^verbatim>\<open>metadata.py\<close>, are
  embedded as functions over an explicit world: the part of the file system the scripts
  touch and the trace of everything they do to the outside (lines printed, HTTP requests,
  pauses, the removal of cover.jpg). The libraries the scripts call (requests, PIL, mutagen,
  pathlib) are not part of the repository; what they answer is a parameter of the model.
\<close>

subsection \<open>Data\<close>

type_synonym bytes = "8 word list"

text \<open>Strings are lists of code points below 256, so that the key \<^verbatim>\<open>'\xa9alb'\<close> has
  four characters as in Python. Python values that may be \<^verbatim>\<open>None\<close> are options;
  \<^verbatim>\<open>if x:\<close> on such a value is false for \<^verbatim>\<open>None\<close> and for the empty string or the
  empty bytes object.\<close>

definition truthy :: "'a list option \<Rightarrow> bool" where
  "truthy x = (case x of None \<Rightarrow> False | Some v \<Rightarrow> v \<noteq> [])"

text \<open>A statement that may raise: \<open>Raise\<close> stands for any exception that
  \<^verbatim>\<open>except Exception\<close> catches.\<close>

datatype 'a exn = Raise | Return 'a

text \<open>A call that may end the process through \<^verbatim>\<open>sys.exit\<close>.\<close>

datatype 'a outcome = SysExit nat | Done 'a

text \<open>The tag keys of the MP4 container the scripts use: \<^verbatim>\<open>'\xa9alb'\<close>, \<^verbatim>\<open>'\xa9ART'\<close>,
  \<^verbatim>\<open>'\xa9nam'\<close>.\<close>

definition key_alb :: string where
  "key_alb = CHR 0xA9 # ''alb''"

definition key_ART :: string where
  "key_ART = CHR 0xA9 # ''ART''"

definition key_nam :: string where
  "key_nam = CHR 0xA9 # ''nam''"

datatype imageformat = FORMAT_JPEG | FORMAT_PNG

datatype mp4cover = MP4Cover bytes imageformat

text \<open>
  An audio file as the scripts see it: the \<^verbatim>\<open>name\<close> and \<^verbatim>\<open>stem\<close> of its path, its
  text tags (each key holds a list of values), its \<^verbatim>\<open>'covr'\<close> tag, and whether
  \<^verbatim>\<open>MP4(path)\<close> and \<^verbatim>\<open>audio.save()\<close> succeed on it.
\<close>

record m4a_file =
  name :: string
  stem :: string
  readable :: bool
  writable :: bool
  text_tags :: "string \<rightharpoonup> string list"
  covr :: "mp4cover list option"

datatype cover_file = NoCover | Unreadable | Readable bytes

text \<open>
  A directory: the files \<^verbatim>\<open>glob("*.m4a")\<close> yields, in that order, its cover.jpg
  (absent, present but failing to open or read, or present with its bytes), and whether
  \<^verbatim>\<open>unlink\<close> of cover.jpg succeeds.
\<close>

record folder =
  m4a_files :: "m4a_file list"
  cover :: cover_file
  can_unlink :: bool

text \<open>Everything the scripts print, one constructor per message (the three lines of a
  result block, those of a folder banner and those of the overall summary are one message
  each). \<open>SearchingFor\<close> carries the title and the artist the line shows.\<close>

datatype msg =
    MusicBrainzError
  | CoverArtArchiveError
  | SearchingMusicBrainz
  | NoRecordingFound
  | FoundReleaseFetching
  | NoCoverArtAvailable
  | FailedToReadCover
  | FailedToProcessImage
  | ErrorNotDirectory string
  | NoM4aFiles
  | LookingForCover
  | FoundCoverUsingLocal
  | NoCoverSearchingOnline
  | SearchingFor "string option" "string option"
  | CouldNotReadMetadata
  | FoundArtworkOnline
  | UsingDefaultArtwork
  | FileOk string
  | FileFailed string
  | DeletedCover
  | CouldNotDeleteCover
  | Results nat nat
  | SongHeader string
  | WarnUsingDefaultArtwork
  | Saved
  | Usage
  | ErrorFolderRequired
  | ProcessingFolder nat nat string
  | OverallSummary nat nat nat
  | AlbumSetTo string
  | AlbumTagsRemoved
  | UnknownCommand string

text \<open>What reaches the outside: a printed message, a GET request to the recording search
  (with its query) or to the cover archive (with the release identifier),
  \<^verbatim>\<open>time.sleep(1.1)\<close>, and \<^verbatim>\<open>unlink\<close> of the cover.jpg of a folder.\<close>

datatype event =
    Print msg
  | RecordingSearch string
  | CoverFetch string
  | Sleep
  | Unlink string

text \<open>The world: directories by path (\<open>None\<close> where \<^verbatim>\<open>is_dir()\<close> is false) and
  the trace so far, oldest event first.\<close>

record world =
  fs :: "string \<rightharpoonup> folder"
  trace :: "event list"

definition emit :: "event \<Rightarrow> world \<Rightarrow> world" where
  "emit e w = w\<lparr>trace := trace w @ [e]\<rparr>"

subsection \<open>The libraries\<close>

text \<open>An HTTP exchange: \<^verbatim>\<open>requests.get\<close> raises, or answers a status code and a body.\<close>

datatype 'a http = HttpRaises | HttpResponse nat 'a

text \<open>
  The JSON body of a recording search, as far as \<^verbatim>\<open>search_musicbrainz\<close> reads it: the
  list under \<^verbatim>\<open>'recordings'\<close>, each recording the list under its \<^verbatim>\<open>'releases'\<close>, each
  release its \<^verbatim>\<open>'id'\<close> if it has one. A missing key reads like an empty list
  (\<^verbatim>\<open>dict.get\<close>); \<open>Malformed\<close> is a body on which \<^verbatim>\<open>response.json()\<close> or the
  accesses raise.
\<close>

datatype mb_body = Malformed | Recordings "string option list list"

text \<open>
  A decoded image as PIL shows it to \<^verbatim>\<open>resize_image\<close>: \<^verbatim>\<open>img.mode\<close>, \<^verbatim>\<open>img.format\<close>,
  \<^verbatim>\<open>img.width\<close>, \<^verbatim>\<open>img.height\<close> and the pixel data, which the scripts never look at.
\<close>

record image =
  mode :: string
  format :: string
  width :: nat
  height :: nat
  pixels :: bytes

text \<open>
  The library calls that stand outside every \<^verbatim>\<open>try\<close> of \<^verbatim>\<open>albumArt.py\<close>:
  \<^verbatim>\<open>folder.is_dir()\<close>, \<^verbatim>\<open>folder.glob("*.m4a")\<close>, \<^verbatim>\<open>cover_file.exists()\<close>,
  \<^verbatim>\<open>urllib.parse.quote(query)\<close> and the PIL calls of \<^verbatim>\<open>create_default_artwork\<close>.
\<close>

datatype libcall =
    Call_is_dir string
  | Call_glob string
  | Call_exists string
  | Call_quote string
  | Call_create_default_artwork nat

text \<open>
  What the libraries answer. The two HTTP services may answer differently over time:
  they see the trace so far and the request (the search query, the release identifier).
  The four PIL calls of \<^verbatim>\<open>resize_image\<close> are \<open>image_open\<close> for
  \<^verbatim>\<open>Image.open(BytesIO(data))\<close>, \<open>image_convert\<close> for \<^verbatim>\<open>img.convert(mode)\<close>,
  \<open>image_thumbnail\<close> for \<^verbatim>\<open>img.thumbnail(size, LANCZOS)\<close> (the image it leaves) and
  \<open>image_save_jpeg\<close> for \<^verbatim>\<open>img.save(output, format='JPEG', quality=q)\<close> followed by
  \<^verbatim>\<open>output.getvalue()\<close>; each may raise. \<open>pil_gray_jpeg n\<close> is the JPEG encoding of the
  n by n image of colour (50, 50, 50); \<open>path_name\<close> is \<^verbatim>\<open>Path(p).name\<close>.
  \<open>printable\<close> tells whether \<^verbatim>\<open>print\<close> of a message succeeds (it raises when standard
  output cannot take the text), and \<open>lib_ok\<close> whether a library call outside every
  \<^verbatim>\<open>try\<close> returns rather than raises.
\<close>

record env =
  mb_get :: "event list \<Rightarrow> string \<Rightarrow> mb_body http"
  caa_get :: "event list \<Rightarrow> string \<Rightarrow> bytes http"
  image_open :: "bytes \<Rightarrow> image exn"
  image_convert :: "image \<Rightarrow> string \<Rightarrow> image exn"
  image_thumbnail :: "image \<Rightarrow> nat \<times> nat \<Rightarrow> image exn"
  image_save_jpeg :: "image \<Rightarrow> nat \<Rightarrow> bytes exn"
  pil_gray_jpeg :: "nat \<Rightarrow> bytes"
  path_name :: "string \<Rightarrow> string"
  printable :: "msg \<Rightarrow> bool"
  lib_ok :: "libcall \<Rightarrow> bool"

subsection \<open>The tag container\<close>

text \<open>\<^verbatim>\<open>MP4(m4a_file)\<close>: the in-memory copy of the file's tags, or an exception.\<close>

definition MP4 :: "m4a_file \<Rightarrow> m4a_file exn" where
  "MP4 m = (if readable m then Return m else Raise)"

text \<open>\<^verbatim>\<open>audio.save()\<close>: the in-memory tags become the file's, or an exception leaves
  the file as it was.\<close>

definition save :: "m4a_file \<Rightarrow> m4a_file exn" where
  "save audio = (if writable audio then Return audio else Raise)"

subsection \<open>metadata.py\<close>

text \<open>
  The body of the \<^verbatim>\<open>try\<close> of \<^verbatim>\<open>update_m4a_metadata\<close> for one file; a string stored under
  a text key is written to the file as a one-element list.
\<close>

definition update_one :: "string option \<Rightarrow> m4a_file \<Rightarrow> m4a_file exn" where
  "update_one album_name m =
     (case MP4 m of
        Raise \<Rightarrow> Raise
      | Return audio \<Rightarrow>
          (let audio1 = (if text_tags audio key_alb \<noteq> None
                         then audio\<lparr>text_tags := (text_tags audio)(key_alb := None)\<rparr>
                         else audio);
               audio2 = (if truthy album_name
                         then audio1\<lparr>text_tags := (text_tags audio1)(key_alb \<mapsto> [the album_name])\<rparr>
                         else audio1)
           in save audio2))"

text \<open>The loop of \<^verbatim>\<open>update_m4a_metadata\<close>, lines 12 to 27: a file whose \<^verbatim>\<open>try\<close> raises
  stays as it was.\<close>

fun update_loop :: "string option \<Rightarrow> m4a_file list \<Rightarrow> event list \<Rightarrow> m4a_file list \<times> event list" where
  "update_loop album_name [] evs = ([], evs)"
| "update_loop album_name (m # ms) evs =
     (case update_one album_name m of
        Return m' \<Rightarrow>
          (let (ms', evs') = update_loop album_name ms (evs @ [Print (FileOk (name m))])
           in (m' # ms', evs'))
      | Raise \<Rightarrow>
          (let (ms', evs') = update_loop album_name ms (evs @ [Print (FileFailed (name m))])
           in (m # ms', evs')))"

definition update_m4a_metadata :: "string \<Rightarrow> string option \<Rightarrow> world \<Rightarrow> unit outcome \<times> world" where
  "update_m4a_metadata folder_path album_name w =
     (case fs w folder_path of
        None \<Rightarrow> (SysExit 1, emit (Print (ErrorNotDirectory folder_path)) w)
      | Some fo \<Rightarrow>
          (let (ms', evs') = update_loop album_name (m4a_files fo) (trace w)
           in (Done (), w\<lparr>fs := (fs w)(folder_path \<mapsto> fo\<lparr>m4a_files := ms'\<rparr>), trace := evs'\<rparr>)))"

text \<open>
  The script body of \<^verbatim>\<open>metadata.py\<close>; \<open>argv\<close> is \<^verbatim>\<open>sys.argv\<close> and the result is
  the exit status of the process.
\<close>

definition metadata_main :: "env \<Rightarrow> string list \<Rightarrow> world \<Rightarrow> nat \<times> world" where
  "metadata_main env argv w =
     (if length argv < 3 then (1, emit (Print Usage) w)
      else
        let command = argv ! 1; folder_path = argv ! 2 in
        if command = ''set'' then
          (let album_name = (if length argv > 3 then argv ! 3 else path_name env folder_path) in
           case update_m4a_metadata folder_path (Some album_name) w of
             (SysExit c, w') \<Rightarrow> (c, w')
           | (Done u, w') \<Rightarrow> (0, emit (Print (AlbumSetTo album_name)) w'))
        else if command = ''del'' then
          (case update_m4a_metadata folder_path None w of
             (SysExit c, w') \<Rightarrow> (c, w')
           | (Done u, w') \<Rightarrow> (0, emit (Print AlbumTagsRemoved) w'))
        else (1, emit (Print (UnknownCommand command)) w))"

subsection \<open>albumArt.py: the remote lookup\<close>

definition quoted :: "string \<Rightarrow> string" where
  "quoted s = [CHR 0x22] @ s @ [CHR 0x22]"

text \<open>\<^verbatim>\<open>' AND '.join(query_parts)\<close>\<close>

fun join_AND :: "string list \<Rightarrow> string" where
  "join_AND [] = []"
| "join_AND [p] = p"
| "join_AND (p # q # ps) = p @ '' AND '' @ join_AND (q # ps)"

definition query_parts :: "string option \<Rightarrow> string option \<Rightarrow> string list" where
  "query_parts title artist =
     (if truthy title then [''recording:'' @ quoted (the title)] else []) @
     (if truthy artist then [''artist:'' @ quoted (the artist)] else [])"

text \<open>
  \<^verbatim>\<open>search_musicbrainz\<close>: no request at all when neither title nor artist is usable;
  otherwise one request to the recording search, identified in the trace by its query
  (the URL is a fixed prefix, the percent-encoded query and a fixed suffix).
\<close>

definition search_musicbrainz ::
  "env \<Rightarrow> string option \<Rightarrow> string option \<Rightarrow> event list \<Rightarrow> string option \<times> event list" where
  "search_musicbrainz env title artist evs =
     (if query_parts title artist = [] then (None, evs)
      else
        let query = join_AND (query_parts title artist);
            evs1 = evs @ [RecordingSearch query]
        in case mb_get env evs query of
             HttpRaises \<Rightarrow> (None, evs1 @ [Print MusicBrainzError])
           | HttpResponse status_code body \<Rightarrow>
               if status_code = 200 then
                 (case body of
                    Malformed \<Rightarrow> (None, evs1 @ [Print MusicBrainzError])
                  | Recordings [] \<Rightarrow> (None, evs1)
                  | Recordings ([] # _) \<Rightarrow> (None, evs1)
                  | Recordings ((None # _) # _) \<Rightarrow> (None, evs1 @ [Print MusicBrainzError])
                  | Recordings ((Some release_id # _) # _) \<Rightarrow> (Some release_id, evs1))
               else (None, evs1))"

definition get_cover_art :: "env \<Rightarrow> string \<Rightarrow> event list \<Rightarrow> bytes option \<times> event list" where
  "get_cover_art env release_id evs =
     (let evs1 = evs @ [CoverFetch release_id]
      in case caa_get env evs release_id of
           HttpRaises \<Rightarrow> (None, evs1 @ [Print CoverArtArchiveError])
         | HttpResponse status_code content \<Rightarrow>
             if status_code = 200 then (Some content, evs1) else (None, evs1))"

definition search_album_art ::
  "env \<Rightarrow> string option \<Rightarrow> string option \<Rightarrow> event list \<Rightarrow> bytes option \<times> event list" where
  "search_album_art env title artist evs =
     (let (release_id, evs1) = search_musicbrainz env title artist (evs @ [Print SearchingMusicBrainz])
      in if \<not> truthy release_id then (None, evs1 @ [Print NoRecordingFound])
         else
           let (cover_data, evs2) = get_cover_art env (the release_id) (evs1 @ [Print FoundReleaseFetching])
           in if truthy cover_data then (cover_data, evs2)
              else (None, evs2 @ [Print NoCoverArtAvailable]))"

subsection \<open>albumArt.py: local cover, normalisation, placeholder\<close>

definition load_local_cover :: "folder \<Rightarrow> event list \<Rightarrow> bytes option \<times> event list" where
  "load_local_cover fo evs =
     (case cover fo of
        NoCover \<Rightarrow> (None, evs)
      | Unreadable \<Rightarrow> (None, evs @ [Print FailedToReadCover])
      | Readable b \<Rightarrow> (Some b, evs))"

text \<open>
  The body of the \<^verbatim>\<open>try\<close> of \<^verbatim>\<open>resize_image\<close>, lines 93 to 103: the image is converted
  only if its mode is not RGB, and made smaller only if a side exceeds \<^verbatim>\<open>max_size\<close>.
\<close>

definition pil_resize :: "env \<Rightarrow> bytes \<Rightarrow> nat \<Rightarrow> bytes exn" where
  "pil_resize env image_data max_size =
     (case image_open env image_data of
        Raise \<Rightarrow> Raise
      | Return img \<Rightarrow>
          (case (if mode img \<noteq> ''RGB'' then image_convert env img ''RGB'' else Return img) of
             Raise \<Rightarrow> Raise
           | Return img1 \<Rightarrow>
               (case (if width img1 > max_size \<or> height img1 > max_size
                      then image_thumbnail env img1 (max_size, max_size)
                      else Return img1) of
                  Raise \<Rightarrow> Raise
                | Return img2 \<Rightarrow> image_save_jpeg env img2 95)))"

definition resize_image :: "env \<Rightarrow> bytes \<Rightarrow> nat \<Rightarrow> event list \<Rightarrow> bytes option \<times> event list" where
  "resize_image env image_data max_size evs =
     (case pil_resize env image_data max_size of
        Return out \<Rightarrow> (Some out, evs)
      | Raise \<Rightarrow> (None, evs @ [Print FailedToProcessImage]))"

definition create_default_artwork :: "env \<Rightarrow> nat \<Rightarrow> bytes" where
  "create_default_artwork env max_size = pil_gray_jpeg env max_size"

text \<open>\<^verbatim>\<open>audio.get(key, [None])[0] if key in audio else None\<close>: indexing an empty list
  raises.\<close>

definition tag_first :: "m4a_file \<Rightarrow> string \<Rightarrow> string option exn" where
  "tag_first audio key =
     (case text_tags audio key of
        None \<Rightarrow> Return None
      | Some [] \<Rightarrow> Raise
      | Some (v # _) \<Rightarrow> Return (Some v))"

subsection \<open>albumArt.py: one artwork for the whole folder\<close>

text \<open>
  Lines 145 to 167 of \<^verbatim>\<open>add_album_art_to_folder\<close>: the search title and artist from the
  tags of the first file, or the folder name when reading them raises.
\<close>

definition first_file_tags :: "m4a_file \<Rightarrow> (string option \<times> string option \<times> string option) exn" where
  "first_file_tags m0 =
     (case MP4 m0 of
        Raise \<Rightarrow> Raise
      | Return audio \<Rightarrow>
          (case tag_first audio key_alb of
             Raise \<Rightarrow> Raise
           | Return album \<Rightarrow>
               (case tag_first audio key_ART of
                  Raise \<Rightarrow> Raise
                | Return artist \<Rightarrow>
                    (case tag_first audio key_nam of
                       Raise \<Rightarrow> Raise
                     | Return title \<Rightarrow> Return (album, artist, title)))))"

definition folder_search_terms ::
  "env \<Rightarrow> string \<Rightarrow> m4a_file \<Rightarrow> event list \<Rightarrow> (string option \<times> string option) \<times> event list" where
  "folder_search_terms env folder_path m0 evs =
     (case first_file_tags m0 of
        Return (album, artist, title) \<Rightarrow>
          (let (search_title, search_artist) =
                 (if truthy album then (album, artist)
                  else if truthy title then (title, artist)
                  else (Some (path_name env folder_path), None))
           in ((search_title, search_artist),
               evs @ [Print (SearchingFor search_title
                               (if truthy search_artist then search_artist else None))]))
      | Raise \<Rightarrow>
          ((Some (path_name env folder_path), None), evs @ [Print CouldNotReadMetadata]))"

text \<open>
  Lines 133 to 177: the artwork that is written to every file, and whether cover.jpg gave
  it (\<^verbatim>\<open>used_local_cover\<close>).
\<close>

definition resolve_folder_artwork ::
  "env \<Rightarrow> string \<Rightarrow> folder \<Rightarrow> m4a_file \<Rightarrow> event list \<Rightarrow> bytes \<times> bool \<times> event list" where
  "resolve_folder_artwork env folder_path fo m0 evs =
     (let (local_data, evs1) = load_local_cover fo (evs @ [Print LookingForCover]);
          (image_data, used_local_cover, evs2) =
            (if truthy local_data then
               (let (resized, e) = resize_image env (the local_data) 512 (evs1 @ [Print FoundCoverUsingLocal])
                in (resized, True, e))
             else
               (let ((search_title, search_artist), e1) =
                      folder_search_terms env folder_path m0 (evs1 @ [Print NoCoverSearchingOnline]);
                    (found, e2) = search_album_art env search_title search_artist e1
                in if truthy found then
                     (let (resized, e3) = resize_image env (the found) 512 (e2 @ [Print FoundArtworkOnline])
                      in (resized, False, e3))
                   else (found, False, e2)))
      in if \<not> truthy image_data
         then (create_default_artwork env 512, used_local_cover, evs2 @ [Print UsingDefaultArtwork])
         else (the image_data, used_local_cover, evs2))"

text \<open>The body of the \<^verbatim>\<open>try\<close> of the write loop, lines 182 to 184.\<close>

definition set_cover :: "bytes \<Rightarrow> m4a_file \<Rightarrow> m4a_file exn" where
  "set_cover image_data m =
     (case MP4 m of
        Raise \<Rightarrow> Raise
      | Return audio \<Rightarrow> save (audio\<lparr>covr := Some [MP4Cover image_data FORMAT_JPEG]\<rparr>))"

text \<open>The write loop, lines 180 to 189, with the two counters.\<close>

fun write_covers ::
  "bytes \<Rightarrow> m4a_file list \<Rightarrow> event list \<Rightarrow> nat \<Rightarrow> nat \<Rightarrow> m4a_file list \<times> event list \<times> nat \<times> nat" where
  "write_covers image_data [] evs succeeded failed = ([], evs, succeeded, failed)"
| "write_covers image_data (m # ms) evs succeeded failed =
     (case set_cover image_data m of
        Return m' \<Rightarrow>
          (let (ms', r) = write_covers image_data ms (evs @ [Print (FileOk (name m))]) (succeeded + 1) failed
           in (m' # ms', r))
      | Raise \<Rightarrow>
          (let (ms', r) = write_covers image_data ms (evs @ [Print (FileFailed (name m))]) succeeded (failed + 1)
           in (m # ms', r)))"

text \<open>Lines 191 to 198: the removal of cover.jpg.\<close>

definition cleanup_cover ::
  "string \<Rightarrow> folder \<Rightarrow> bool \<Rightarrow> nat \<Rightarrow> nat \<Rightarrow> event list \<Rightarrow> cover_file \<times> event list" where
  "cleanup_cover folder_path fo used_local_cover succeeded failed evs =
     (if used_local_cover \<and> failed = 0 \<and> succeeded > 0 then
        (if can_unlink fo
         then (NoCover, evs @ [Unlink folder_path, Print DeletedCover])
         else (cover fo, evs @ [Unlink folder_path, Print CouldNotDeleteCover]))
      else (cover fo, evs))"

definition add_album_art_to_folder :: "env \<Rightarrow> string \<Rightarrow> world \<Rightarrow> (nat \<times> nat) \<times> world" where
  "add_album_art_to_folder env folder_path w =
     (case fs w folder_path of
        None \<Rightarrow> ((0, 0), emit (Print (ErrorNotDirectory folder_path)) w)
      | Some fo \<Rightarrow>
          (case m4a_files fo of
             [] \<Rightarrow> ((0, 0), emit (Print NoM4aFiles) w)
           | m0 # rest \<Rightarrow>
               (let (image_data, used_local_cover, evs1) =
                      resolve_folder_artwork env folder_path fo m0 (trace w);
                    (ms', evs2, succeeded, failed) = write_covers image_data (m4a_files fo) evs1 0 0;
                    (cover', evs3) = cleanup_cover folder_path fo used_local_cover succeeded failed evs2
                in ((succeeded, failed),
                    w\<lparr>fs := (fs w)(folder_path \<mapsto> fo\<lparr>m4a_files := ms', cover := cover'\<rparr>),
                      trace := evs3 @ [Print (Results succeeded failed)]\<rparr>))))"

subsection \<open>albumArt.py: one lookup per song\<close>

text \<open>
  \<^verbatim>\<open>filename.split(' - ', 1)\<close> where the separator occurs: the text before its first
  occurrence and the text after it; \<open>None\<close> where \<^verbatim>\<open>' - ' in filename\<close> is false.
\<close>

fun split_first :: "string \<Rightarrow> string \<Rightarrow> (string \<times> string) option" where
  "split_first sep [] = None"
| "split_first sep (c # cs) =
     (if take (length sep) (c # cs) = sep then Some ([], drop (length sep) (c # cs))
      else case split_first sep cs of
             None \<Rightarrow> None
           | Some (before, after) \<Rightarrow> Some (c # before, after))"

text \<open>\<^verbatim>\<open>str.strip()\<close>: the characters below 256 on which \<^verbatim>\<open>str.isspace\<close> holds are
  removed at both ends.\<close>

definition is_space :: "char \<Rightarrow> bool" where
  "is_space c = (c \<in> {CHR '' '', CHR 0x09, CHR 0x0A, CHR 0x0B, CHR 0x0C, CHR 0x0D,
                       CHR 0x1C, CHR 0x1D, CHR 0x1E, CHR 0x1F, CHR 0x85, CHR 0xA0})"

definition strip :: "string \<Rightarrow> string" where
  "strip s = rev (dropWhile is_space (rev (dropWhile is_space s)))"

text \<open>Lines 233 to 240: title and artist from the file name when the tags give neither.\<close>

definition song_search_terms ::
  "m4a_file \<Rightarrow> string option \<Rightarrow> string option \<Rightarrow> string option \<times> string option" where
  "song_search_terms m title artist =
     (if \<not> truthy title \<and> \<not> truthy artist then
        (let filename = stem m
         in case split_first '' - '' filename of
              Some (p0, p1) \<Rightarrow> (Some (strip p0), Some (strip p1))
            | None \<Rightarrow> (Some filename, artist))
      else (title, artist))"

text \<open>Lines 245 to 248: the lookup for one song, normalised when it gives something.\<close>

definition lookup_song_artwork ::
  "env \<Rightarrow> string option \<Rightarrow> string option \<Rightarrow> event list \<Rightarrow> bytes option \<times> event list" where
  "lookup_song_artwork env title artist evs =
     (let (found, evs1) = search_album_art env title artist evs
      in if truthy found then resize_image env (the found) 512 evs1 else (found, evs1))"

text \<open>
  Lines 245 to 256: the lookup, the placeholder when it gives nothing, and the two
  counters as that branch leaves them.
\<close>

definition resolve_song_artwork ::
  "env \<Rightarrow> bytes \<Rightarrow> string option \<Rightarrow> string option \<Rightarrow> event list \<Rightarrow> nat \<Rightarrow> nat
     \<Rightarrow> bytes \<times> event list \<times> nat \<times> nat" where
  "resolve_song_artwork env default_artwork title artist evs succeeded failed =
     (let (image_data, evs2) = lookup_song_artwork env title artist evs
      in if \<not> truthy image_data
         then (default_artwork, evs2 @ [Print WarnUsingDefaultArtwork], succeeded, failed + 1)
         else (the image_data, evs2, succeeded + 1, failed))"

text \<open>
  One pass of the loop of \<^verbatim>\<open>add_album_art_per_song\<close>, lines 225 to 267: the file as it is
  afterwards, the trace and the two counters. The handler of the \<^verbatim>\<open>try\<close> sees the counters
  as the body left them when it raised.
\<close>

definition process_song ::
  "env \<Rightarrow> bytes \<Rightarrow> m4a_file \<Rightarrow> event list \<Rightarrow> nat \<Rightarrow> nat \<Rightarrow> m4a_file \<times> event list \<times> nat \<times> nat" where
  "process_song env default_artwork m evs succeeded failed =
     (case MP4 m of
        Raise \<Rightarrow> (m, evs @ [Print (FileFailed (name m))], succeeded, failed + 1)
      | Return audio \<Rightarrow>
          (case tag_first audio key_nam of
             Raise \<Rightarrow> (m, evs @ [Print (FileFailed (name m))], succeeded, failed + 1)
           | Return title0 \<Rightarrow>
               (case tag_first audio key_ART of
                  Raise \<Rightarrow> (m, evs @ [Print (FileFailed (name m))], succeeded, failed + 1)
                | Return artist0 \<Rightarrow>
                    (let (title, artist) = song_search_terms m title0 artist0;
                         evs1 = evs @ [Print (SongHeader (name m)),
                                       Print (SearchingFor title (if truthy artist then artist else None))];
                         (image_data, evs2, succeeded', failed') =
                           resolve_song_artwork env default_artwork title artist evs1 succeeded failed
                     in case save (audio\<lparr>covr := Some [MP4Cover image_data FORMAT_JPEG]\<rparr>) of
                          Return m' \<Rightarrow> (m', evs2 @ [Print Saved, Sleep], succeeded', failed')
                        | Raise \<Rightarrow> (m, evs2 @ [Print (FileFailed (name m))], succeeded', failed' + 1)))))"

text \<open>The loop over the files, line 224.\<close>

fun song_loop ::
  "env \<Rightarrow> bytes \<Rightarrow> m4a_file list \<Rightarrow> event list \<Rightarrow> nat \<Rightarrow> nat \<Rightarrow> m4a_file list \<times> event list \<times> nat \<times> nat" where
  "song_loop env default_artwork [] evs succeeded failed = ([], evs, succeeded, failed)"
| "song_loop env default_artwork (m # ms) evs succeeded failed =
     (let (m', evs1, succeeded1, failed1) = process_song env default_artwork m evs succeeded failed;
          (ms', r) = song_loop env default_artwork ms evs1 succeeded1 failed1
      in (m' # ms', r))"

definition add_album_art_per_song :: "env \<Rightarrow> string \<Rightarrow> world \<Rightarrow> (nat \<times> nat) \<times> world" where
  "add_album_art_per_song env folder_path w =
     (case fs w folder_path of
        None \<Rightarrow> ((0, 0), emit (Print (ErrorNotDirectory folder_path)) w)
      | Some fo \<Rightarrow>
          (case m4a_files fo of
             [] \<Rightarrow> ((0, 0), emit (Print NoM4aFiles) w)
           | m0 # rest \<Rightarrow>
               (let default_artwork = create_default_artwork env 512;
                    (ms', evs1, succeeded, failed) =
                      song_loop env default_artwork (m4a_files fo) (trace w) 0 0
                in ((succeeded, failed),
                    w\<lparr>fs := (fs w)(folder_path \<mapsto> fo\<lparr>m4a_files := ms'\<rparr>),
                      trace := evs1 @ [Print (Results succeeded failed)]\<rparr>))))"

subsection \<open>albumArt.py: the script body\<close>

text \<open>The loop over the folders, lines 299 to 310; \<open>i\<close> counts from 1.\<close>

fun process_folders ::
  "env \<Rightarrow> bool \<Rightarrow> nat \<Rightarrow> string list \<Rightarrow> nat \<Rightarrow> nat \<Rightarrow> nat \<Rightarrow> world \<Rightarrow> (nat \<times> nat) \<times> world" where
  "process_folders env is_album_mode n [] i total_succeeded total_failed w =
     ((total_succeeded, total_failed), w)"
| "process_folders env is_album_mode n (folder_path # rest) i total_succeeded total_failed w =
     (let w1 = emit (Print (ProcessingFolder i n folder_path)) w;
          ((s, f), w2) = (if is_album_mode then add_album_art_to_folder env folder_path w1
                          else add_album_art_per_song env folder_path w1)
      in process_folders env is_album_mode n rest (i + 1) (total_succeeded + s) (total_failed + f) w2)"

text \<open>The script body; the result is the exit status of the process, 0 when the script
  runs to its end.\<close>

definition albumArt_main :: "env \<Rightarrow> string list \<Rightarrow> world \<Rightarrow> nat \<times> world" where
  "albumArt_main env argv w =
     (if length argv < 2 then (1, emit (Print Usage) w)
      else
        let is_album_mode = (argv ! 1 = ''album'') in
        if is_album_mode \<and> length argv < 3 then (1, emit (Print ErrorFolderRequired) w)
        else
          let folders = (if is_album_mode then drop 2 argv else drop 1 argv);
              ((total_succeeded, total_failed), w') =
                process_folders env is_album_mode (length folders) folders 1 0 0 w
          in (0, if length folders > 1
                 then emit (Print (OverallSummary (length folders) total_succeeded total_failed)) w'
                 else w'))"

section \<open>Notions used in the statements\<close>

text \<open>The remote calls of a trace: the requests to the recording search and to the cover
  archive.\<close>

fun is_remote :: "event \<Rightarrow> bool" where
  "is_remote (RecordingSearch q) = True"
| "is_remote (CoverFetch r) = True"
| "is_remote e = False"

definition remote_calls :: "event list \<Rightarrow> event list" where
  "remote_calls evs = filter is_remote evs"

text \<open>The recording searches of a trace.\<close>

fun is_search :: "event \<Rightarrow> bool" where
  "is_search (RecordingSearch q) = True"
| "is_search e = False"

text \<open>A file on which both \<^verbatim>\<open>MP4(path)\<close> and \<^verbatim>\<open>audio.save()\<close> succeed.\<close>

definition saves_ok :: "m4a_file \<Rightarrow> bool" where
  "saves_ok m = (readable m \<and> writable m)"

text \<open>
  Where resolved artwork comes from: it is the placeholder, or the normalised form of the
  bytes of cover.jpg, or the normalised form of bytes the cover archive answered with
  status 200.
\<close>

definition artwork_origin :: "env \<Rightarrow> cover_file \<Rightarrow> bytes \<Rightarrow> bool" where
  "artwork_origin env c img \<longleftrightarrow>
     img = create_default_artwork env 512
     \<or> (\<exists>raw. pil_resize env raw 512 = Return img \<and>
          (c = Readable raw \<or> (\<exists>h rid. caa_get env h rid = HttpResponse 200 raw)))"

text \<open>
  The album tag after the metadata editor, in the words of the specification: the
  existing tag is removed, then set to the given value if one was given. This definition
  follows the specification, not \<^verbatim>\<open>metadata.py\<close>.
\<close>

definition spec_album_after :: "string option \<Rightarrow> (string \<rightharpoonup> string list) \<Rightarrow> (string \<rightharpoonup> string list)" where
  "spec_album_after album_name tags =
     (case album_name of
        None \<Rightarrow> tags(key_alb := None)
      | Some v \<Rightarrow> (tags(key_alb := None))(key_alb \<mapsto> [v]))"

text \<open>
  What \<^verbatim>\<open>resize_image\<close> needs of PIL to be idempotent. An RGB image that the JPEG encoder
  accepts is read back by the decoder as an RGB image of format JPEG with the same width
  and height, and that image can be encoded again; a thumbnail fits into the requested box
  and keeps the mode; a conversion to RGB gives an image of mode RGB.
\<close>

definition pil_contract :: "env \<Rightarrow> bool" where
  "pil_contract env \<longleftrightarrow>
     (\<forall>img q b. mode img = ''RGB'' \<and> image_save_jpeg env img q = Return b \<longrightarrow>
        (\<exists>img'. image_open env b = Return img' \<and> mode img' = ''RGB'' \<and> format img' = ''JPEG''
           \<and> width img' = width img \<and> height img' = height img
           \<and> image_save_jpeg env img' q \<noteq> Raise))
   \<and> (\<forall>img n img'. image_thumbnail env img (n, n) = Return img' \<longrightarrow>
          width img' \<le> n \<and> height img' \<le> n \<and> mode img' = mode img)
   \<and> (\<forall>img img'. image_convert env img ''RGB'' = Return img' \<longrightarrow> mode img' = ''RGB'')"

subsection \<open>Concrete worlds\<close>

definition jpeg_stub :: bytes where
  "jpeg_stub = [0xFF, 0xD8, 0xFF, 0xD9]"

text \<open>
  A codec that keeps the bytes it is given as the pixel data of a 1 by 1 RGB image and
  gives them back on saving.
\<close>

definition stub_image :: "bytes \<Rightarrow> image" where
  "stub_image b = \<lparr>mode = ''RGB'', format = ''JPEG'', width = 1, height = 1, pixels = b\<rparr>"

text \<open>No network: every request raises. PIL decodes \<open>jpeg_stub\<close> only. Every message
  can be printed and no library call raises.\<close>

definition offline_env :: env where
  "offline_env = \<lparr>mb_get = (\<lambda>evs q. HttpRaises), caa_get = (\<lambda>evs r. HttpRaises),
     image_open = (\<lambda>b. if b = jpeg_stub then Return (stub_image b) else Raise),
     image_convert = (\<lambda>img m. Return (img\<lparr>mode := m\<rparr>)),
     image_thumbnail = (\<lambda>img (w, h). Return (img\<lparr>width := min w (width img), height := min h (height img)\<rparr>)),
     image_save_jpeg = (\<lambda>img q. Return (pixels img)),
     pil_gray_jpeg = (\<lambda>n. jpeg_stub), path_name = (\<lambda>p. p),
     printable = (\<lambda>m. True), lib_ok = (\<lambda>c. True)\<rparr>"

text \<open>A network that finds a release and a cover for every query.\<close>

definition online_env :: env where
  "online_env = \<lparr>mb_get = (\<lambda>evs q. HttpResponse 200 (Recordings [[Some ''r1'']])),
     caa_get = (\<lambda>evs r. HttpResponse 200 [0xFF, 0xD8, 0x01, 0xFF, 0xD9]),
     image_open = (\<lambda>b. Return (stub_image b)),
     image_convert = (\<lambda>img m. Return (img\<lparr>mode := m\<rparr>)),
     image_thumbnail = (\<lambda>img (w, h). Return (img\<lparr>width := min w (width img), height := min h (height img)\<rparr>)),
     image_save_jpeg = (\<lambda>img q. Return (pixels img)),
     pil_gray_jpeg = (\<lambda>n. jpeg_stub), path_name = (\<lambda>p. p),
     printable = (\<lambda>m. True), lib_ok = (\<lambda>c. True)\<rparr>"

text \<open>
  A codec that writes an image as its width in ones, a zero, and its height in ones, and
  reads it back; a thumbnail cuts each side down to the box.
\<close>

definition unary_codec_env :: env where
  "unary_codec_env = \<lparr>mb_get = (\<lambda>evs q. HttpRaises), caa_get = (\<lambda>evs r. HttpRaises),
     image_open = (\<lambda>b. Return \<lparr>mode = ''RGB'', format = ''JPEG'',
        width = length (takeWhile (\<lambda>x. x \<noteq> 0) b),
        height = length (drop 1 (dropWhile (\<lambda>x. x \<noteq> 0) b)), pixels = []\<rparr>),
     image_convert = (\<lambda>img m. Return (img\<lparr>mode := m\<rparr>)),
     image_thumbnail = (\<lambda>img (w, h). Return (img\<lparr>width := min w (width img), height := min h (height img)\<rparr>)),
     image_save_jpeg = (\<lambda>img q. Return (replicate (width img) 1 @ [0] @ replicate (height img) 1)),
     pil_gray_jpeg = (\<lambda>n. replicate n 1 @ [0] @ replicate n 1), path_name = (\<lambda>p. p),
     printable = (\<lambda>m. True), lib_ok = (\<lambda>c. True)\<rparr>"

definition song :: "string \<Rightarrow> bool \<Rightarrow> (string \<rightharpoonup> string list) \<Rightarrow> m4a_file" where
  "song n can_write tags = \<lparr>name = n @ ''.m4a'', stem = n, readable = True, writable = can_write,
     text_tags = tags, covr = None\<rparr>"

definition dir :: "m4a_file list \<Rightarrow> cover_file \<Rightarrow> folder" where
  "dir ms c = \<lparr>m4a_files = ms, cover = c, can_unlink = True\<rparr>"

text \<open>A world whose only directory is \<^verbatim>\<open>X\<close>.\<close>

definition one_folder :: "m4a_file list \<Rightarrow> cover_file \<Rightarrow> world" where
  "one_folder ms c = \<lparr>fs = [''X'' \<mapsto> dir ms c], trace = []\<rparr>"

section \<open>Properties\<close>

lemmas unfold_all =
  add_album_art_to_folder_def add_album_art_per_song_def resolve_folder_artwork_def
  load_local_cover_def resize_image_def create_default_artwork_def folder_search_terms_def
  first_file_tags_def tag_first_def MP4_def save_def search_album_art_def search_musicbrainz_def
  get_cover_art_def query_parts_def quoted_def truthy_def set_cover_def cleanup_cover_def
  process_song_def resolve_song_artwork_def lookup_song_artwork_def song_search_terms_def update_m4a_metadata_def
  update_one_def albumArt_main_def metadata_main_def spec_album_after_def
  pil_resize_def stub_image_def offline_env_def online_env_def song_def dir_def one_folder_def jpeg_stub_def emit_def
  key_alb_def key_ART_def key_nam_def remote_calls_def saves_ok_def Let_def

subsection \<open>The metadata editor\<close>

lemma update_one_eq:
  "update_one a m =
     (if saves_ok m
      then Return (m\<lparr>text_tags := (if truthy a then (text_tags m)(key_alb \<mapsto> [the a])
                                     else (text_tags m)(key_alb := None))\<rparr>)
      else Raise)"
  by (cases m) (auto simp: update_one_def MP4_def save_def saves_ok_def Let_def fun_eq_iff)

lemma update_loop_eq:
  "update_loop a ms evs =
     (map (\<lambda>m. if saves_ok m
                then m\<lparr>text_tags := (if truthy a then (text_tags m)(key_alb \<mapsto> [the a])
                                      else (text_tags m)(key_alb := None))\<rparr>
                else m) ms,
      evs @ map (\<lambda>m. Print (if saves_ok m then FileOk (name m) else FileFailed (name m))) ms)"
  by (induction ms arbitrary: evs) (simp_all add: update_one_eq)

text \<open>
  C7, amended. In a valid folder, every matched file that can be read and saved ends with
  its album tag set to the single given value when a non-empty value was given, and with no
  album tag when no value or the empty string was given; its other tags are as before. A
  file that cannot be read or saved is left as it was, and the call does not exit.
\<close>

theorem update_m4a_metadata_album:
  assumes "fs w p = Some fo"
  shows "fst (update_m4a_metadata p a w) = Done ()
     \<and> map_option m4a_files (fs (snd (update_m4a_metadata p a w)) p) =
         Some (map (\<lambda>m. if saves_ok m
                          then m\<lparr>text_tags := (if truthy a then (text_tags m)(key_alb \<mapsto> [the a])
                                                else (text_tags m)(key_alb := None))\<rparr>
                          else m) (m4a_files fo))"
  using assms by (simp add: update_m4a_metadata_def update_loop_eq)

theorem update_m4a_metadata_album_witness:
  "fs (one_folder [song ''a'' True [key_alb \<mapsto> [''Old'']], song ''b'' False [key_alb \<mapsto> [''Old'']]] NoCover) ''X''
     = Some (dir [song ''a'' True [key_alb \<mapsto> [''Old'']], song ''b'' False [key_alb \<mapsto> [''Old'']]] NoCover)
   \<and> map_option (map (\<lambda>m. text_tags m key_alb) \<circ> m4a_files)
       (fs (snd (update_m4a_metadata ''X'' None
          (one_folder [song ''a'' True [key_alb \<mapsto> [''Old'']], song ''b'' False [key_alb \<mapsto> [''Old'']]] NoCover))) ''X'')
     = Some [None, Some [''Old'']]"
proof -
  have h: "fs (one_folder [song ''a'' True [key_alb \<mapsto> [''Old'']], song ''b'' False [key_alb \<mapsto> [''Old'']]] NoCover) ''X''
     = Some (dir [song ''a'' True [key_alb \<mapsto> [''Old'']], song ''b'' False [key_alb \<mapsto> [''Old'']]] NoCover)"
    by (simp add: one_folder_def)
  show ?thesis
    using h update_m4a_metadata_album [OF h, of None]
    by (simp add: unfold_all option.map_comp [symmetric])
qed

text \<open>
  C7 as stated fails: \<^verbatim>\<open>set X ""\<close> gives the empty string as the value, and the album tag
  of a file that is read and saved ends absent, where the claim has it set to the value.
\<close>

theorem empty_album_value_clears_tag:
  "map_option (map (\<lambda>m. text_tags m key_alb) \<circ> m4a_files)
       (fs (snd (metadata_main offline_env [''metadata.py'', ''set'', ''X'', '''']
          (one_folder [song ''a'' True [key_alb \<mapsto> [''Old'']]] NoCover))) ''X'')
     = Some [None]
   \<and> map (\<lambda>m. spec_album_after (Some '''') (text_tags m) key_alb)
       [song ''a'' True [key_alb \<mapsto> [''Old'']]] = [Some ['''']]"
  by (simp add: unfold_all)

subsection \<open>Shared mode\<close>

lemma set_cover_eq:
  "set_cover img m =
     (if saves_ok m then Return (m\<lparr>covr := Some [MP4Cover img FORMAT_JPEG]\<rparr>) else Raise)"
  by (simp add: set_cover_def MP4_def save_def saves_ok_def)

lemma write_covers_eq:
  "write_covers img ms evs s f =
     (map (\<lambda>m. if saves_ok m then m\<lparr>covr := Some [MP4Cover img FORMAT_JPEG]\<rparr> else m) ms,
      evs @ map (\<lambda>m. Print (if saves_ok m then FileOk (name m) else FileFailed (name m))) ms,
      s + length (filter saves_ok ms),
      f + length (filter (\<lambda>m. \<not> saves_ok m) ms))"
  by (induction ms arbitrary: evs s f) (simp_all add: set_cover_eq)

lemma remote_calls_append: "remote_calls (xs @ ys) = remote_calls xs @ remote_calls ys"
  by (simp add: remote_calls_def)

lemma remote_calls_prints: "remote_calls (map (\<lambda>m. Print (g m)) ms) = []"
  by (induction ms) (simp_all add: remote_calls_def)

lemma resolve_local:
  assumes "cover fo = Readable b" and "b \<noteq> []"
  shows "resolve_folder_artwork env p fo m0 evs =
     (case pil_resize env b 512 of
        Return out \<Rightarrow>
          if out = []
          then (create_default_artwork env 512, True,
                evs @ [Print LookingForCover, Print FoundCoverUsingLocal, Print UsingDefaultArtwork])
          else (out, True, evs @ [Print LookingForCover, Print FoundCoverUsingLocal])
      | Raise \<Rightarrow>
          (create_default_artwork env 512, True,
           evs @ [Print LookingForCover, Print FoundCoverUsingLocal, Print FailedToProcessImage,
                  Print UsingDefaultArtwork]))"
  using assms
  by (simp add: resolve_folder_artwork_def load_local_cover_def resize_image_def truthy_def
      split: exn.splits)

text \<open>
  C1, amended. When cover.jpg can be read and is not empty, shared mode makes no remote
  call, neither a recording search nor a cover fetch, and the artwork it writes is the
  normalised form of the bytes of cover.jpg, or the placeholder when normalisation fails
  or yields nothing.
\<close>

theorem local_cover_no_remote_call:
  assumes "fs w p = Some fo" and "m4a_files fo = m0 # rest"
    and "cover fo = Readable b" and "b \<noteq> []"
  shows "remote_calls (trace (snd (add_album_art_to_folder env p w))) = remote_calls (trace w)
     \<and> fst (resolve_folder_artwork env p fo m0 (trace w)) =
         (case pil_resize env b 512 of
            Return out \<Rightarrow> if out = [] then create_default_artwork env 512 else out
          | Raise \<Rightarrow> create_default_artwork env 512)"
proof -
  have "remote_calls (trace (snd (add_album_art_to_folder env p w))) = remote_calls (trace w)"
    using assms(1,2)
    by (simp add: add_album_art_to_folder_def resolve_local [OF assms(3,4)] write_covers_eq
        cleanup_cover_def remote_calls_append remote_calls_prints
        split: exn.splits prod.splits)
       (simp add: remote_calls_def)
  moreover have "fst (resolve_folder_artwork env p fo m0 (trace w)) =
         (case pil_resize env b 512 of
            Return out \<Rightarrow> if out = [] then create_default_artwork env 512 else out
          | Raise \<Rightarrow> create_default_artwork env 512)"
    by (simp add: resolve_local [OF assms(3,4)] split: exn.splits)
  ultimately show ?thesis by simp
qed

theorem local_cover_no_remote_call_witness:
  "fs (one_folder [song ''a'' True Map.empty] (Readable jpeg_stub)) ''X''
     = Some (dir [song ''a'' True Map.empty] (Readable jpeg_stub))
   \<and> m4a_files (dir [song ''a'' True Map.empty] (Readable jpeg_stub)) = song ''a'' True Map.empty # []
   \<and> cover (dir [song ''a'' True Map.empty] (Readable jpeg_stub)) = Readable jpeg_stub
   \<and> jpeg_stub \<noteq> []
   \<and> remote_calls (trace (snd (add_album_art_to_folder online_env ''X''
        (one_folder [song ''a'' True Map.empty] (Readable jpeg_stub))))) = []
   \<and> fst (resolve_folder_artwork online_env ''X'' (dir [song ''a'' True Map.empty] (Readable jpeg_stub))
        (song ''a'' True Map.empty) []) = jpeg_stub"
proof -
  have h1: "fs (one_folder [song ''a'' True Map.empty] (Readable jpeg_stub)) ''X''
     = Some (dir [song ''a'' True Map.empty] (Readable jpeg_stub))"
    by (simp add: one_folder_def)
  have h2: "m4a_files (dir [song ''a'' True Map.empty] (Readable jpeg_stub)) = song ''a'' True Map.empty # []"
    by (simp add: dir_def)
  have h3: "cover (dir [song ''a'' True Map.empty] (Readable jpeg_stub)) = Readable jpeg_stub"
    by (simp add: dir_def)
  have h4: "jpeg_stub \<noteq> []"
    by (simp add: jpeg_stub_def)
  have t: "trace (one_folder [song ''a'' True Map.empty] (Readable jpeg_stub)) = []"
    by (simp add: one_folder_def)
  have r: "pil_resize online_env jpeg_stub 512 = Return jpeg_stub"
    by (simp add: online_env_def pil_resize_def stub_image_def)
  show ?thesis
    using h1 h2 h3 h4 local_cover_no_remote_call [OF h1 h2 h3 h4, of online_env]
    by (simp add: t r remote_calls_def)
qed

text \<open>
  C1 as stated fails: the folder holds a cover.jpg that cannot be read, and shared mode
  sends a recording search.
\<close>

theorem unreadable_cover_remote_call:
  "cover (dir [song ''a'' True Map.empty] Unreadable) \<noteq> NoCover
   \<and> remote_calls (trace (snd (add_album_art_to_folder offline_env ''X''
        (one_folder [song ''a'' True Map.empty] Unreadable))))
     = [RecordingSearch (''recording:'' @ quoted ''X'')]"
  by (simp add: unfold_all)

text \<open>
  C2, at a folder whose cover.jpg holds bytes that are not an image: the placeholder is
  written to the file, and cover.jpg is removed although it did not give the artwork.
\<close>

theorem undecodable_cover_removed:
  "add_album_art_to_folder offline_env ''X'' (one_folder [song ''a'' True Map.empty] (Readable [0x00]))
     = ((1, 0),
        \<lparr>fs = [''X'' \<mapsto> dir [(song ''a'' True Map.empty)\<lparr>covr :=
                   Some [MP4Cover (create_default_artwork offline_env 512) FORMAT_JPEG]\<rparr>] NoCover],
         trace = [Print LookingForCover, Print FoundCoverUsingLocal, Print FailedToProcessImage,
                  Print UsingDefaultArtwork, Print (FileOk ''a.m4a''), Unlink ''X'',
                  Print DeletedCover, Print (Results 1 0)]\<rparr>)"
  by (simp add: unfold_all)

text \<open>
  When and how cover.jpg goes: it is removed exactly when it was read with some content,
  every file was read and saved, and the removal itself succeeds; in every other run it
  stays as it was, and a removal that fails is reported while the counts are returned as
  usual.
\<close>

lemma cover_after_shared_mode:
  assumes "fs w p = Some fo" and "m4a_files fo = m0 # rest"
  shows "map_option cover (fs (snd (add_album_art_to_folder env p w)) p) =
     Some (if (\<exists>b. cover fo = Readable b \<and> b \<noteq> []) \<and> (\<forall>m \<in> set (m4a_files fo). saves_ok m)
              \<and> can_unlink fo
           then NoCover else cover fo)"
proof -
  have fl: "\<And>ms. (length (filter (\<lambda>m. \<not> saves_ok m) ms) = 0) = (\<forall>m \<in> set ms. saves_ok m)"
    by (simp add: filter_empty_conv)
  have used: "fst (snd (resolve_folder_artwork env p fo m0 (trace w)))
      = (\<exists>b. cover fo = Readable b \<and> b \<noteq> [])"
    by (auto simp: resolve_folder_artwork_def load_local_cover_def truthy_def Let_def
        split: prod.splits cover_file.splits)
  obtain img u e where r: "resolve_folder_artwork env p fo m0 (trace w) = (img, u, e)"
    by (cases "resolve_folder_artwork env p fo m0 (trace w)") auto
  have u: "u = (\<exists>b. cover fo = Readable b \<and> b \<noteq> [])"
    using used r by simp
  show ?thesis
    using assms fl [of "m4a_files fo"]
    by (auto simp: add_album_art_to_folder_def r u write_covers_eq cleanup_cover_def)
qed

subsection \<open>Resolution\<close>

lemma search_album_art_result:
  "search_album_art env t a evs = (r, evs') \<Longrightarrow>
     r = None \<or> (\<exists>raw h rid. r = Some raw \<and> raw \<noteq> [] \<and> caa_get env h rid = HttpResponse 200 raw)"
  by (auto simp: search_album_art_def get_cover_art_def truthy_def Let_def
      split: prod.splits if_splits http.splits option.splits)

lemma resize_image_result:
  "resize_image env raw n evs = (Some out, evs') \<Longrightarrow> pil_resize env raw n = Return out"
  by (auto simp: resize_image_def split: exn.splits)

text \<open>
  C3. Provided the JPEG encoding of the placeholder image is not empty, the artwork that
  resolution hands to the write step is never empty, in shared mode and in per-file mode
  alike, and it is the normalised bytes of cover.jpg, the normalised bytes of a fetched
  cover, or the placeholder. (It is a bytes value, never \<^verbatim>\<open>None\<close>.)
\<close>

theorem resolution_never_empty:
  assumes "pil_gray_jpeg env 512 \<noteq> []"
  shows "fst (resolve_folder_artwork env p fo m0 evs) \<noteq> []
     \<and> artwork_origin env (cover fo) (fst (resolve_folder_artwork env p fo m0 evs))
     \<and> fst (resolve_song_artwork env (create_default_artwork env 512) title artist evs s f) \<noteq> []
     \<and> artwork_origin env NoCover
          (fst (resolve_song_artwork env (create_default_artwork env 512) title artist evs s f))"
proof -
  have a: "fst (resolve_folder_artwork env p fo m0 evs) \<noteq> []"
    using assms
    by (auto simp: resolve_folder_artwork_def create_default_artwork_def
        truthy_def Let_def split: prod.splits option.splits if_splits)
  have b: "fst (resolve_song_artwork env (create_default_artwork env 512) title artist evs s f) \<noteq> []"
    using assms
    by (auto simp: resolve_song_artwork_def lookup_song_artwork_def create_default_artwork_def
        truthy_def Let_def split: prod.splits option.splits if_splits)
  have c: "artwork_origin env (cover fo) (fst (resolve_folder_artwork env p fo m0 evs))"
    by (auto simp: resolve_folder_artwork_def artwork_origin_def load_local_cover_def
        truthy_def Let_def split: prod.splits option.splits if_splits cover_file.splits
        dest!: resize_image_result dest: search_album_art_result)
  have d: "artwork_origin env NoCover
          (fst (resolve_song_artwork env (create_default_artwork env 512) title artist evs s f))"
    by (auto simp: resolve_song_artwork_def lookup_song_artwork_def artwork_origin_def
        truthy_def Let_def split: prod.splits option.splits if_splits
        dest!: resize_image_result dest: search_album_art_result)
  from a b c d show ?thesis by simp
qed

theorem resolution_never_empty_witness:
  "pil_gray_jpeg online_env 512 \<noteq> []
   \<and> fst (resolve_folder_artwork online_env ''X'' (dir [song ''a'' True Map.empty] NoCover)
        (song ''a'' True Map.empty) []) = [0xFF, 0xD8, 0x01, 0xFF, 0xD9]
   \<and> fst (resolve_song_artwork online_env (create_default_artwork online_env 512) None None [] 0 0)
        = [0xFF, 0xD8, 0xFF, 0xD9]"
proof -
  have h: "pil_gray_jpeg online_env 512 \<noteq> []"
    by (simp add: online_env_def jpeg_stub_def)
  have "fst (resolve_folder_artwork online_env ''X'' (dir [song ''a'' True Map.empty] NoCover)
        (song ''a'' True Map.empty) []) = [0xFF, 0xD8, 0x01, 0xFF, 0xD9]"
    by (simp add: unfold_all)
  moreover have "fst (resolve_song_artwork online_env (create_default_artwork online_env 512) None None [] 0 0)
        = [0xFF, 0xD8, 0xFF, 0xD9]"
    by (simp add: unfold_all)
  ultimately show ?thesis
    using h resolution_never_empty [OF h, of "''X''" "dir [song ''a'' True Map.empty] NoCover"
       "song ''a'' True Map.empty" "[]" None None 0 0]
    by simp
qed

subsection \<open>The search text of shared mode\<close>

lemma searches_prints: "filter is_search (map (\<lambda>m. Print (g m)) ms) = []"
  by (induction ms) simp_all

lemma search_musicbrainz_searches:
  "search_musicbrainz env t a evs = (r, evs') \<Longrightarrow>
   filter is_search evs' =
     filter is_search evs @
       (if query_parts t a = [] then [] else [RecordingSearch (join_AND (query_parts t a))])"
  by (auto simp: search_musicbrainz_def Let_def
      split: if_splits http.splits mb_body.splits list.splits option.splits)

lemma get_cover_art_searches:
  "get_cover_art env rid evs = (r, evs') \<Longrightarrow> filter is_search evs' = filter is_search evs"
  by (auto simp: get_cover_art_def Let_def split: http.splits if_splits)

lemma search_album_art_searches:
  "search_album_art env t a evs = (r, evs') \<Longrightarrow>
   filter is_search evs' =
     filter is_search evs @
       (if query_parts t a = [] then [] else [RecordingSearch (join_AND (query_parts t a))])"
  by (auto simp: search_album_art_def Let_def split: prod.splits if_splits
      dest!: search_musicbrainz_searches get_cover_art_searches)

lemma resize_image_searches:
  "resize_image env b n evs = (r, evs') \<Longrightarrow> filter is_search evs' = filter is_search evs"
  by (auto simp: resize_image_def split: exn.splits)

lemma first_file_tags_cases:
  "first_file_tags m0 =
     (if readable m0 \<and> text_tags m0 key_alb \<noteq> Some [] \<and> text_tags m0 key_ART \<noteq> Some []
         \<and> text_tags m0 key_nam \<noteq> Some []
      then Return (map_option hd (text_tags m0 key_alb), map_option hd (text_tags m0 key_ART),
                   map_option hd (text_tags m0 key_nam))
      else Raise)"
  by (auto simp: first_file_tags_def MP4_def tag_first_def split: option.splits list.splits)

lemma folder_search_terms_searches:
  "folder_search_terms env p m0 evs = (ta, evs') \<Longrightarrow>
     filter is_search evs' = filter is_search evs \<and> ta = fst (folder_search_terms env p m0 [])"
  by (auto simp: folder_search_terms_def Let_def split: exn.splits prod.splits if_splits)

lemma resolve_online_searches:
  assumes "cover fo = NoCover \<or> cover fo = Unreadable \<or> cover fo = Readable []"
    and "resolve_folder_artwork env p fo m0 evs = (img, u, evs')"
    and "fst (folder_search_terms env p m0 []) = (t, a)"
  shows "filter is_search evs' =
     filter is_search evs @
       (if query_parts t a = [] then [] else [RecordingSearch (join_AND (query_parts t a))])"
  using assms
  by (auto simp: resolve_folder_artwork_def load_local_cover_def truthy_def Let_def
      split: prod.splits if_splits
      dest!: folder_search_terms_searches search_album_art_searches resize_image_searches)

lemma folder_terms_eq:
  "fst (folder_search_terms env p m0 []) =
     (if readable m0 \<and> text_tags m0 key_alb \<noteq> Some [] \<and> text_tags m0 key_ART \<noteq> Some []
         \<and> text_tags m0 key_nam \<noteq> Some []
      then (if truthy (map_option hd (text_tags m0 key_alb))
            then (map_option hd (text_tags m0 key_alb), map_option hd (text_tags m0 key_ART))
            else if truthy (map_option hd (text_tags m0 key_nam))
            then (map_option hd (text_tags m0 key_nam), map_option hd (text_tags m0 key_ART))
            else (Some (path_name env p), None))
      else (Some (path_name env p), None))"
  by (simp add: folder_search_terms_def first_file_tags_cases Let_def)

lemma shared_searches:
  assumes "fs w p = Some fo" and "m4a_files fo = m0 # rest"
    and "cover fo = NoCover \<or> cover fo = Unreadable \<or> cover fo = Readable []"
    and "fst (folder_search_terms env p m0 []) = (t, a)"
  shows "filter is_search (trace (snd (add_album_art_to_folder env p w))) =
     filter is_search (trace w) @
       (if query_parts t a = [] then [] else [RecordingSearch (join_AND (query_parts t a))])"
proof -
  obtain img u e where r: "resolve_folder_artwork env p fo m0 (trace w) = (img, u, e)"
    by (cases "resolve_folder_artwork env p fo m0 (trace w)") auto
  have e: "filter is_search e = filter is_search (trace w) @
       (if query_parts t a = [] then [] else [RecordingSearch (join_AND (query_parts t a))])"
    by (rule resolve_online_searches [OF assms(3) r assms(4)])
  show ?thesis
    using assms(1,2)
    by (simp add: add_album_art_to_folder_def r write_covers_eq cleanup_cover_def e
        searches_prints)
qed

lemma query_parts_terms:
  assumes "fst (folder_search_terms env p m0 []) = (t, a)"
    and "tags_read = (readable m0 \<and> text_tags m0 key_alb \<noteq> Some []
           \<and> text_tags m0 key_ART \<noteq> Some [] \<and> text_tags m0 key_nam \<noteq> Some [])"
    and "album = map_option hd (text_tags m0 key_alb)"
    and "artist = map_option hd (text_tags m0 key_ART)"
    and "title = map_option hd (text_tags m0 key_nam)"
    and "search_title = (if tags_read \<and> truthy album then album
                         else if tags_read \<and> truthy title then title
                         else Some (path_name env p))"
    and "with_artist = (tags_read \<and> truthy artist \<and> (truthy album \<or> truthy title))"
  shows "query_parts t a =
      (if truthy search_title then [''recording:'' @ quoted (the search_title)] else []) @
      (if with_artist then [''artist:'' @ quoted (the artist)] else [])"
proof -
  have ta: "(t, a) = (if tags_read then (if truthy album then (album, artist)
                 else if truthy title then (title, artist) else (Some (path_name env p), None))
             else (Some (path_name env p), None))"
    using assms(1) unfolding folder_terms_eq assms(2,3,4,5) by simp
  show ?thesis
  proof (cases tags_read)
    case False
    with ta assms(6,7) show ?thesis by (simp add: query_parts_def truthy_def)
  next
    case tr: True
    show ?thesis
    proof (cases "truthy album")
      case True
      with tr ta assms(6,7) show ?thesis by (simp add: query_parts_def)
    next
      case na: False
      show ?thesis
      proof (cases "truthy title")
        case True
        with tr na ta assms(6,7) show ?thesis by (simp add: query_parts_def)
      next
        case False
        with tr na ta assms(6,7) show ?thesis by (simp add: query_parts_def truthy_def)
      qed
    qed
  qed
qed

text \<open>
  C4, amended. In shared mode without a usable cover.jpg (none, unreadable or empty) the
  run sends one recording search, or none when the query is empty. The tags of the first
  file can be read when the file opens and none of its album, artist and title tags is
  present without a value. If they can be read, the search title is the album tag when it
  is not empty, else the title tag when it is not empty, else the folder name, and the
  artist is part of the query exactly when the artist tag is not empty and the title came
  from the album tag or the title tag. If they cannot be read, the folder name is the
  title. With the folder name no artist is attached.
\<close>

theorem shared_search_query:
  assumes "fs w p = Some fo" and "m4a_files fo = m0 # rest"
    and "cover fo = NoCover \<or> cover fo = Unreadable \<or> cover fo = Readable []"
    and "tags_read = (readable m0 \<and> text_tags m0 key_alb \<noteq> Some []
           \<and> text_tags m0 key_ART \<noteq> Some [] \<and> text_tags m0 key_nam \<noteq> Some [])"
    and "album = map_option hd (text_tags m0 key_alb)"
    and "artist = map_option hd (text_tags m0 key_ART)"
    and "title = map_option hd (text_tags m0 key_nam)"
    and "search_title = (if tags_read \<and> truthy album then album
                         else if tags_read \<and> truthy title then title
                         else Some (path_name env p))"
    and "with_artist = (tags_read \<and> truthy artist \<and> (truthy album \<or> truthy title))"
    and "parts = (if truthy search_title then [''recording:'' @ quoted (the search_title)] else []) @
                 (if with_artist then [''artist:'' @ quoted (the artist)] else [])"
  shows "filter is_search (trace (snd (add_album_art_to_folder env p w))) =
     filter is_search (trace w) @ (if parts = [] then [] else [RecordingSearch (join_AND parts)])"
proof -
  obtain t a where ta: "fst (folder_search_terms env p m0 []) = (t, a)"
    by (cases "fst (folder_search_terms env p m0 [])") auto
  have "query_parts t a = parts"
    unfolding assms(10) by (rule query_parts_terms [OF ta assms(4-9)])
  with shared_searches [OF assms(1-3) ta] show ?thesis by simp
qed

theorem shared_search_query_witness:
  "fs (one_folder [song ''a'' True [key_nam \<mapsto> [''T''], key_ART \<mapsto> [''A'']]] NoCover) ''X''
     = Some (dir [song ''a'' True [key_nam \<mapsto> [''T''], key_ART \<mapsto> [''A'']]] NoCover)
   \<and> m4a_files (dir [song ''a'' True [key_nam \<mapsto> [''T''], key_ART \<mapsto> [''A'']]] NoCover)
       = song ''a'' True [key_nam \<mapsto> [''T''], key_ART \<mapsto> [''A'']] # []
   \<and> cover (dir [song ''a'' True [key_nam \<mapsto> [''T''], key_ART \<mapsto> [''A'']]] NoCover) = NoCover
   \<and> filter is_search (trace (snd (add_album_art_to_folder offline_env ''X''
        (one_folder [song ''a'' True [key_nam \<mapsto> [''T''], key_ART \<mapsto> [''A'']]] NoCover))))
     = [RecordingSearch (''recording:'' @ quoted ''T'' @ '' AND '' @ ''artist:'' @ quoted ''A'')]"
proof -
  let ?m = "song ''a'' True [key_nam \<mapsto> [''T''], key_ART \<mapsto> [''A'']]"
  have h1: "fs (one_folder [?m] NoCover) ''X'' = Some (dir [?m] NoCover)"
    by (simp add: one_folder_def)
  have h2: "m4a_files (dir [?m] NoCover) = ?m # []"
    by (simp add: dir_def)
  have h3: "cover (dir [?m] NoCover) = NoCover \<or> cover (dir [?m] NoCover) = Unreadable
      \<or> cover (dir [?m] NoCover) = Readable []"
    by (simp add: dir_def)
  have tags: "text_tags ?m key_alb = None" "text_tags ?m key_ART = Some [''A'']"
    "text_tags ?m key_nam = Some [''T'']" "readable ?m"
    by (simp_all add: song_def key_alb_def key_ART_def key_nam_def)
  have t: "trace (one_folder [?m] NoCover) = []"
    by (simp add: one_folder_def)
  show ?thesis
    using h1 h2 shared_search_query [OF h1 h2 h3 refl refl refl refl refl refl refl, of offline_env]
    by (simp add: tags t truthy_def dir_def)
qed

text \<open>An artist tag that is present without a value makes the read raise: the folder name
  is searched although the album tag is there.\<close>

lemma valueless_tag_folder_name:
  "filter is_search (trace (snd (add_album_art_to_folder offline_env ''X''
        (one_folder [song ''a'' True [key_alb \<mapsto> [''Alb''], key_ART \<mapsto> []]] NoCover))))
     = [RecordingSearch (''recording:'' @ quoted ''X'')]"
  by (simp add: unfold_all)

text \<open>When the first file cannot be opened the folder name is searched, with no artist.\<close>

lemma folder_search_unreadable:
  "\<not> readable m0 \<Longrightarrow>
     folder_search_terms env p m0 evs =
       ((Some (path_name env p), None), evs @ [Print CouldNotReadMetadata])"
  by (simp add: folder_search_terms_def first_file_tags_def MP4_def)

text \<open>
  C4 as stated fails: the first file has an artist tag and neither album nor title, and
  the query holds the folder name alone, without the artist.
\<close>

theorem artist_dropped_with_folder_name:
  "text_tags (song ''a'' True [key_ART \<mapsto> [''Artist'']]) key_ART = Some [''Artist'']
   \<and> fst (folder_search_terms offline_env ''X'' (song ''a'' True [key_ART \<mapsto> [''Artist'']]) [])
       = (Some ''X'', None)
   \<and> remote_calls (trace (snd (add_album_art_to_folder offline_env ''X''
        (one_folder [song ''a'' True [key_ART \<mapsto> [''Artist'']]] NoCover))))
     = [RecordingSearch (''recording:'' @ quoted ''X'')]"
  by (simp add: unfold_all)

subsection \<open>Normalisation\<close>

lemma pil_resize_saved:
  assumes "pil_contract env" and "pil_resize env x n = Return y"
  shows "\<exists>img. mode img = ''RGB'' \<and> width img \<le> n \<and> height img \<le> n
           \<and> image_save_jpeg env img 95 = Return y"
proof -
  from assms(2) obtain img0 img1 img2 where
    o: "image_open env x = Return img0"
    and c: "(if mode img0 \<noteq> ''RGB'' then image_convert env img0 ''RGB'' else Return img0) = Return img1"
    and t: "(if width img1 > n \<or> height img1 > n then image_thumbnail env img1 (n, n) else Return img1) = Return img2"
    and s: "image_save_jpeg env img2 95 = Return y"
    by (auto simp: pil_resize_def split: exn.splits)
  from assms(1) c have m1: "mode img1 = ''RGB''"
    unfolding pil_contract_def by (auto split: if_splits)
  from assms(1) t m1 have "mode img2 = ''RGB'' \<and> width img2 \<le> n \<and> height img2 \<le> n"
    unfolding pil_contract_def by (auto split: if_splits)
  with s show ?thesis by blast
qed

lemma pil_resize_again:
  assumes "pil_contract env" and "mode img = ''RGB''" and "width img \<le> n" and "height img \<le> n"
    and "image_save_jpeg env img 95 = Return y"
  shows "\<exists>iy z iz. image_open env y = Return iy \<and> pil_resize env y n = Return z
       \<and> image_open env z = Return iz
       \<and> width iz = width iy \<and> height iz = height iy \<and> mode iz = mode iy \<and> format iz = format iy
       \<and> mode iy = ''RGB'' \<and> format iy = ''JPEG'' \<and> width iy \<le> n \<and> height iy \<le> n"
proof -
  from assms(1,2,5) obtain iy where iy: "image_open env y = Return iy" "mode iy = ''RGB''"
      "format iy = ''JPEG''" "width iy = width img" "height iy = height img"
      "image_save_jpeg env iy 95 \<noteq> Raise"
    unfolding pil_contract_def by blast
  then obtain z where z: "image_save_jpeg env iy 95 = Return z"
    by (cases "image_save_jpeg env iy 95") auto
  from assms(1) iy(2) z obtain iz where iz: "image_open env z = Return iz" "mode iz = ''RGB''"
      "format iz = ''JPEG''" "width iz = width iy" "height iz = height iy"
    unfolding pil_contract_def by blast
  have "pil_resize env y n = Return z"
    using iy z assms(3,4) by (simp add: pil_resize_def)
  with iy iz assms(3,4) show ?thesis by simp
qed

text \<open>
  C9. With a PIL that keeps its contract, \<^verbatim>\<open>resize_image\<close> applied to its own output
  succeeds again without any message, and the image it gives has the width, the height,
  the mode (RGB) and the format (JPEG) of the image it was given, which already fits into
  \<^verbatim>\<open>max_size\<close>: on a normalised image neither the conversion nor the thumbnail runs, the
  image is only encoded again with the same encoder and quality.
\<close>

theorem resize_image_idempotent:
  assumes "pil_contract env" and "resize_image env x max_size evs = (Some y, evs')"
  shows "\<exists>iy z iz. image_open env y = Return iy
       \<and> resize_image env y max_size evs' = (Some z, evs')
       \<and> image_open env z = Return iz
       \<and> width iz = width iy \<and> height iz = height iy \<and> mode iz = mode iy \<and> format iz = format iy
       \<and> mode iy = ''RGB'' \<and> format iy = ''JPEG'' \<and> width iy \<le> max_size \<and> height iy \<le> max_size"
proof -
  from assms(2) have r: "pil_resize env x max_size = Return y" and e: "evs' = evs"
    by (auto simp: resize_image_def split: exn.splits)
  from pil_resize_saved [OF assms(1) r] obtain img where img: "mode img = ''RGB''"
      "width img \<le> max_size" "height img \<le> max_size" "image_save_jpeg env img 95 = Return y"
    by blast
  from pil_resize_again [OF assms(1) img] obtain iy z iz where
    "image_open env y = Return iy" "pil_resize env y max_size = Return z"
    "image_open env z = Return iz"
    "width iz = width iy" "height iz = height iy" "mode iz = mode iy" "format iz = format iy"
    "mode iy = ''RGB''" "format iy = ''JPEG''" "width iy \<le> max_size" "height iy \<le> max_size"
    by blast
  then show ?thesis
    by (simp add: resize_image_def)
qed

lemma unary_roundtrip:
  "takeWhile (\<lambda>x. x \<noteq> (0::8 word)) (replicate w 1 @ 0 # ys) = replicate w 1"
  "dropWhile (\<lambda>x. x \<noteq> (0::8 word)) (replicate w 1 @ 0 # ys) = 0 # ys"
  by (induction w) simp_all

lemma unary_contract: "pil_contract unary_codec_env"
  unfolding pil_contract_def unary_codec_env_def
  by (simp add: unary_roundtrip)

theorem resize_image_idempotent_witness:
  "pil_contract unary_codec_env
   \<and> resize_image unary_codec_env [1, 1, 1, 0, 1, 1, 1, 1, 1] 2 [] = (Some [1, 1, 0, 1, 1], [])
   \<and> resize_image unary_codec_env [1, 1, 0, 1, 1] 2 [] = (Some [1, 1, 0, 1, 1], [])
   \<and> image_open unary_codec_env [1, 1, 0, 1, 1]
       = Return \<lparr>mode = ''RGB'', format = ''JPEG'', width = 2, height = 2, pixels = []\<rparr>"
proof -
  have h: "resize_image unary_codec_env [1, 1, 1, 0, 1, 1, 1, 1, 1] 2 [] = (Some [1, 1, 0, 1, 1], [])"
    by (simp add: resize_image_def pil_resize_def unary_codec_env_def numeral_2_eq_2)
  have again: "resize_image unary_codec_env [1, 1, 0, 1, 1] 2 [] = (Some [1, 1, 0, 1, 1], [])"
    by (simp add: resize_image_def pil_resize_def unary_codec_env_def numeral_2_eq_2)
  have opened: "image_open unary_codec_env [1, 1, 0, 1, 1]
       = Return \<lparr>mode = ''RGB'', format = ''JPEG'', width = 2, height = 2, pixels = []\<rparr>"
    by (simp add: unary_codec_env_def)
  show ?thesis
    using unary_contract h again opened resize_image_idempotent [OF unary_contract h]
    by simp
qed

subsection \<open>Per-file mode\<close>

lemma search_album_art_trace:
  "search_album_art env t a evs = (r, evs') \<Longrightarrow>
     \<exists>new. evs' = evs @ new \<and> Print WarnUsingDefaultArtwork \<notin> set new \<and> Print Saved \<notin> set new"
  by (auto simp: search_album_art_def search_musicbrainz_def get_cover_art_def Let_def
      split: prod.splits if_splits http.splits mb_body.splits list.splits option.splits)

lemma resize_image_trace:
  "resize_image env b n evs = (r, evs') \<Longrightarrow>
     \<exists>new. evs' = evs @ new \<and> Print WarnUsingDefaultArtwork \<notin> set new"
  by (auto simp: resize_image_def split: exn.splits)

text \<open>A lookup gives nothing when the cover archive never answers with content.\<close>

lemma lookup_fails_without_cover:
  assumes "\<And>h rid c. caa_get env h rid = HttpResponse 200 c \<Longrightarrow> c = []"
  shows "\<not> truthy (fst (lookup_song_artwork env title artist evs))"
proof -
  obtain r e where r: "search_album_art env title artist evs = (r, e)"
    by (cases "search_album_art env title artist evs") auto
  from search_album_art_result [OF r] assms have "r = None" by blast
  with r show ?thesis by (simp add: lookup_song_artwork_def truthy_def)
qed

lemma process_song_raises:
  "\<not> readable u \<or> text_tags u key_nam = Some [] \<or> text_tags u key_ART = Some [] \<Longrightarrow>
     process_song env d u evs s f = (u, evs @ [Print (FileFailed (name u))], s, f + 1)"
  by (auto simp: process_song_def MP4_def tag_first_def split: option.splits list.splits)

lemma tag_first_value:
  "text_tags m k \<noteq> Some [] \<Longrightarrow> tag_first m k = Return (map_option hd (text_tags m k))"
  by (auto simp: tag_first_def split: option.splits list.splits)

lemma process_song_looked_up:
  assumes "readable m" and "text_tags m key_nam \<noteq> Some []" and "text_tags m key_ART \<noteq> Some []"
    and "song_search_terms m (map_option hd (text_tags m key_nam))
           (map_option hd (text_tags m key_ART)) = (title, artist)"
    and "lookup_song_artwork env title artist
           (evs @ [Print (SongHeader (name m)),
                   Print (SearchingFor title (if truthy artist then artist else None))])
         = (image_data, evs2)"
  shows "process_song env d m evs s f =
     (if truthy image_data
      then (if writable m
            then (m\<lparr>covr := Some [MP4Cover (the image_data) FORMAT_JPEG]\<rparr>,
                  evs2 @ [Print Saved, Sleep], s + 1, f)
            else (m, evs2 @ [Print (FileFailed (name m))], s + 1, f + 1))
      else (if writable m
            then (m\<lparr>covr := Some [MP4Cover d FORMAT_JPEG]\<rparr>,
                  evs2 @ [Print WarnUsingDefaultArtwork, Print Saved, Sleep], s, f + 1)
            else (m, evs2 @ [Print WarnUsingDefaultArtwork, Print (FileFailed (name m))], s, f + 2)))"
  using assms
  by (simp add: process_song_def MP4_def save_def resolve_song_artwork_def tag_first_value)

text \<open>
  C5, amended. In per-file mode, for a file that opens and whose title and artist tags
  can be read: when the lookup gives nothing (no release, no cover, or an image that cannot
  be normalised), the placeholder is what goes into the cover tag, it is saved when the
  save succeeds, and the failed lookup adds one to the failure count and nothing to the
  succeeded count; when the lookup gives an image, it adds one to the succeeded count. An
  exception adds one to the failure count as well: a save that raises, on top of what the
  lookup added, and a file that cannot be opened or has a title or artist tag without a
  value, which is left as it was.
\<close>

theorem failed_lookup_counts_failed:
  assumes "readable m" and "text_tags m key_nam \<noteq> Some []" and "text_tags m key_ART \<noteq> Some []"
    and "song_search_terms m (map_option hd (text_tags m key_nam))
           (map_option hd (text_tags m key_ART)) = (title, artist)"
    and "lookup_song_artwork env title artist
           (evs @ [Print (SongHeader (name m)),
                   Print (SearchingFor title (if truthy artist then artist else None))])
         = (image_data, evs2)"
  shows "(\<not> truthy image_data \<and> writable m \<longrightarrow>
            process_song env d m evs s f =
              (m\<lparr>covr := Some [MP4Cover d FORMAT_JPEG]\<rparr>,
               evs2 @ [Print WarnUsingDefaultArtwork, Print Saved, Sleep], s, f + 1))
     \<and> (\<not> truthy image_data \<and> \<not> writable m \<longrightarrow>
            process_song env d m evs s f =
              (m, evs2 @ [Print WarnUsingDefaultArtwork, Print (FileFailed (name m))], s, f + 1 + 1))
     \<and> (truthy image_data \<and> writable m \<longrightarrow>
            process_song env d m evs s f =
              (m\<lparr>covr := Some [MP4Cover (the image_data) FORMAT_JPEG]\<rparr>,
               evs2 @ [Print Saved, Sleep], s + 1, f))
     \<and> (truthy image_data \<and> \<not> writable m \<longrightarrow>
            process_song env d m evs s f =
              (m, evs2 @ [Print (FileFailed (name m))], s + 1, f + 1))
     \<and> (\<not> readable u \<or> text_tags u key_nam = Some [] \<or> text_tags u key_ART = Some [] \<longrightarrow>
            process_song env d u evs s f = (u, evs @ [Print (FileFailed (name u))], s, f + 1))"
  using process_song_looked_up [OF assms, of d s f] process_song_raises [of u env d evs s f]
  by simp

theorem failed_lookup_counts_failed_witness:
  "readable (song ''a'' True Map.empty)
   \<and> text_tags (song ''a'' True Map.empty) key_nam = None
   \<and> text_tags (song ''a'' True Map.empty) key_ART = None
   \<and> song_search_terms (song ''a'' True Map.empty) None None = (Some ''a'', None)
   \<and> lookup_song_artwork offline_env (Some ''a'') None
        [Print (SongHeader ''a.m4a''), Print (SearchingFor (Some ''a'') None)]
       = (None, [Print (SongHeader ''a.m4a''), Print (SearchingFor (Some ''a'') None),
                 Print SearchingMusicBrainz, RecordingSearch (''recording:'' @ quoted ''a''),
                 Print MusicBrainzError, Print NoRecordingFound])
   \<and> \<not> truthy (None :: bytes option)
   \<and> writable (song ''a'' True Map.empty)
   \<and> process_song offline_env jpeg_stub (song ''a'' True Map.empty) [] 0 0
       = ((song ''a'' True Map.empty)\<lparr>covr := Some [MP4Cover jpeg_stub FORMAT_JPEG]\<rparr>,
          [Print (SongHeader ''a.m4a''), Print (SearchingFor (Some ''a'') None),
           Print SearchingMusicBrainz, RecordingSearch (''recording:'' @ quoted ''a''),
           Print MusicBrainzError, Print NoRecordingFound, Print WarnUsingDefaultArtwork,
           Print Saved, Sleep],
          0, 1)"
proof -
  let ?m = "song ''a'' True Map.empty"
  have tags: "readable ?m" "writable ?m" "text_tags ?m key_nam = None" "text_tags ?m key_ART = None"
    "name ?m = ''a.m4a''"
    by (simp_all add: song_def)
  have h1: "readable ?m" by (simp add: song_def)
  have h2: "text_tags ?m key_nam \<noteq> Some []" by (simp add: song_def)
  have h3: "text_tags ?m key_ART \<noteq> Some []" by (simp add: song_def)
  have h4: "song_search_terms ?m (map_option hd (text_tags ?m key_nam))
        (map_option hd (text_tags ?m key_ART)) = (Some ''a'', None)"
    by (simp add: song_search_terms_def song_def truthy_def)
  have h5: "lookup_song_artwork offline_env (Some ''a'') None
        ([] @ [Print (SongHeader (name ?m)),
               Print (SearchingFor (Some ''a'') (if truthy (None :: string option) then None else None))])
       = (None, [Print (SongHeader ''a.m4a''), Print (SearchingFor (Some ''a'') None),
                 Print SearchingMusicBrainz, RecordingSearch (''recording:'' @ quoted ''a''),
                 Print MusicBrainzError, Print NoRecordingFound])"
    by (simp add: unfold_all)
  show ?thesis
    using tags h4 h5 failed_lookup_counts_failed [OF h1 h2 h3 h4 h5, of jpeg_stub 0 0]
    by (simp add: truthy_def)
qed

text \<open>
  C5 as stated fails: one file, read and saved without any exception, whose lookup gives
  nothing. The placeholder is written and the run returns 0 succeeded and 1 failed.
\<close>

theorem lookup_failure_in_failed_count:
  "add_album_art_per_song offline_env ''X'' (one_folder [song ''a'' True Map.empty] NoCover)
     = ((0, 1),
        \<lparr>fs = [''X'' \<mapsto> dir [(song ''a'' True Map.empty)\<lparr>covr :=
                   Some [MP4Cover (create_default_artwork offline_env 512) FORMAT_JPEG]\<rparr>] NoCover],
         trace = [Print (SongHeader ''a.m4a''), Print (SearchingFor (Some ''a'') None),
                  Print SearchingMusicBrainz, RecordingSearch (''recording:'' @ quoted ''a''),
                  Print MusicBrainzError, Print NoRecordingFound, Print WarnUsingDefaultArtwork,
                  Print Saved, Sleep, Print (Results 0 1)]\<rparr>)"
  by (simp add: unfold_all)

text \<open>
  C6, at a folder of two files that are read and looked up but cannot be saved: the run
  sends the requests for the first file and then those for the second with no pause in
  between, and never pauses at all.
\<close>

theorem no_sleep_after_failed_save:
  "filter (\<lambda>e. is_remote e \<or> e = Sleep)
     (trace (snd (add_album_art_per_song online_env ''X''
        (one_folder [song ''a'' False Map.empty, song ''b'' False Map.empty] NoCover))))
   = [RecordingSearch (''recording:'' @ quoted ''a''), CoverFetch ''r1'',
      RecordingSearch (''recording:'' @ quoted ''b''), CoverFetch ''r1'']"
  by (simp add: unfold_all)

text \<open>The pause does follow every file that was saved, whatever its lookup gave.\<close>

lemma sleep_after_saved_song:
  assumes "process_song env d m evs s f = (m', evs', s', f')"
    and "readable m" and "writable m"
    and "text_tags m key_nam \<noteq> Some []" and "text_tags m key_ART \<noteq> Some []"
  shows "evs' \<noteq> [] \<and> last evs' = Sleep"
  using assms
  by (auto simp: process_song_def MP4_def save_def tag_first_def Let_def
      split: exn.splits prod.splits option.splits list.splits)

subsection \<open>Invalid folders and the exit status\<close>






end
